theory Spec2Isabelle
  imports Main "HOL-Library.AList" "HOL-Library.Multiset"
begin

section \<open>Python strings\<close>

text \<open>
  A Python \<open>str\<close> is modelled as a \<open>string\<close> (a list of 8-bit characters); the
  development covers ASCII text. The string methods the loader calls are written out
  below with the behaviour CPython gives them on ASCII strings.
\<close>

text \<open>\<open>str.lower()\<close>: the letters \<open>A\<close> .. \<open>Z\<close> move to \<open>a\<close> .. \<open>z\<close>.\<close>

definition lower_char :: "char \<Rightarrow> char" where
  "lower_char c =
     (case map_of (zip ''ABCDEFGHIJKLMNOPQRSTUVWXYZ'' ''abcdefghijklmnopqrstuvwxyz'') c of
        None \<Rightarrow> c
      | Some d \<Rightarrow> d)"

definition py_lower :: "string \<Rightarrow> string" where
  "py_lower s = map lower_char s"

text \<open>
  \<open>str.strip()\<close> removes leading and trailing whitespace; on ASCII these are the
  characters for which \<open>str.isspace()\<close> holds: 0x09 .. 0x0D, 0x1C .. 0x1F and the blank.
\<close>

definition py_whitespace :: "char list" where
  "py_whitespace =
     [CHR 0x09, CHR 0x0A, CHR 0x0B, CHR 0x0C, CHR 0x0D,
      CHR 0x1C, CHR 0x1D, CHR 0x1E, CHR 0x1F, CHR '' '']"

text \<open>\<open>s.strip(chars)\<close>: drop every leading and trailing character that is in \<open>chars\<close>.\<close>

definition py_strip_chars :: "char list \<Rightarrow> string \<Rightarrow> string" where
  "py_strip_chars cs s =
     rev (dropWhile (\<lambda>c. c \<in> set cs) (rev (dropWhile (\<lambda>c. c \<in> set cs) s)))"

definition py_strip :: "string \<Rightarrow> string" where
  "py_strip s = py_strip_chars py_whitespace s"

text \<open>\<open>s.startswith(p)\<close>.\<close>

fun startswith :: "string \<Rightarrow> string \<Rightarrow> bool" where
  "startswith s [] = True"
| "startswith [] (p # ps) = False"
| "startswith (c # cs) (p # ps) = (c = p \<and> startswith cs ps)"

text \<open>\<open>x in s\<close> for two strings: \<open>x\<close> occurs in \<open>s\<close> as a contiguous substring.\<close>

fun contains :: "string \<Rightarrow> string \<Rightarrow> bool" where
  "contains x [] = (x = [])"
| "contains x (c # cs) = (startswith (c # cs) x \<or> contains x cs)"

text \<open>
  \<open>s.split(sep)\<close> for a one-character separator: the pieces between the separators,
  empty pieces included, so the result is never the empty list.
\<close>

fun py_split :: "char \<Rightarrow> string \<Rightarrow> string list" where
  "py_split sep [] = [[]]"
| "py_split sep (c # cs) =
     (if c = sep then [] # py_split sep cs
      else (case py_split sep cs of
              [] \<Rightarrow> [[c]]
            | p # ps \<Rightarrow> (c # p) # ps))"

text \<open>
  \<open>s.split(sep, 1)\<close> for a separator that occurs in \<open>s\<close>: the text before the first
  occurrence and the text after it.
\<close>

definition split_first :: "char \<Rightarrow> string \<Rightarrow> string \<times> string" where
  "split_first sep s =
     (takeWhile (\<lambda>c. c \<noteq> sep) s, tl (dropWhile (\<lambda>c. c \<noteq> sep) s))"

text \<open>\<open>s.replace(a, b)\<close> for single characters.\<close>

definition py_replace :: "char \<Rightarrow> char \<Rightarrow> string \<Rightarrow> string" where
  "py_replace a b s = map (\<lambda>c. if c = a then b else c) s"

section \<open>Exceptions\<close>

text \<open>
  A function that may raise returns a sum: \<open>Inl\<close> the exception, \<open>Inr\<close> the value.
\<close>

datatype py_error = KeyError | ValueError | TypeError

section \<open>Status buckets\<close>

definition PDF_NOT_RETRIEVED_STATUSES :: "string list" where
  "PDF_NOT_RETRIEVED_STATUSES = [''pdf_needs_manual_retrieval'', ''pdf_not_available'']"

definition PDF_RETRIEVED_STATUSES :: "string list" where
  "PDF_RETRIEVED_STATUSES =
     [''pdf_imported'', ''pdf_needs_manual_preparation'', ''pdf_prepared'']"

text \<open>\<open>any(x in s for x in xs)\<close>.\<close>

definition any_in :: "string list \<Rightarrow> string \<Rightarrow> bool" where
  "any_in xs s = list_ex (\<lambda>x. contains x s) xs"

definition status_bucket :: "string \<Rightarrow> string" where
  "status_bucket status =
     (let s = py_lower status in
      if contains ''rev_prescreen_excluded'' s then ''prescreen_excluded''
      else if any_in [''excluded'', ''reject''] s then ''fulltext_excluded''
      else if any_in [''prescreen'', ''screened''] s then ''screened''
      else if any_in PDF_NOT_RETRIEVED_STATUSES s then ''pdf_not_retrieved''
      else if any_in PDF_RETRIEVED_STATUSES s then ''pdf_retrieved''
      else if any_in [''included'', ''accept'', ''synth''] s then ''included''
      else if any_in [''duplicate'', ''dedupe''] s then ''duplicate''
      else ''other'')"

section \<open>Record values\<close>

text \<open>
  A record is a mapping from field names to values of any type. The loader looks at a
  field value in four ways only: its truth value, its \<open>str()\<close> rendering, whether it
  is a \<open>str\<close>, and whether it is a \<open>list\<close> (then also at its elements). So a value is
  \<^item> \<open>VNone\<close>: Python's \<open>None\<close>;
  \<^item> \<open>VStr s\<close>: the string \<open>s\<close>;
  \<^item> \<open>VList xs r\<close>: a list with the elements \<open>xs\<close>, whose \<open>str()\<close> is \<open>r\<close>;
  \<^item> \<open>VObj t r\<close>: any other object (a number, an enum member, a mapping), with truth
    value \<open>t\<close> and \<open>str()\<close> rendering \<open>r\<close>.
\<close>

datatype pyval = VNone | VStr string | VList "pyval list" string | VObj bool string

fun py_truthy :: "pyval \<Rightarrow> bool" where
  "py_truthy VNone = False"
| "py_truthy (VStr s) = (s \<noteq> [])"
| "py_truthy (VList xs r) = (xs \<noteq> [])"
| "py_truthy (VObj t r) = t"

fun py_str :: "pyval \<Rightarrow> string" where
  "py_str VNone = ''None''"
| "py_str (VStr s) = s"
| "py_str (VList xs r) = r"
| "py_str (VObj t r) = r"

type_synonym pyrec = "string \<rightharpoonup> pyval"

text \<open>\<open>rec.get(key)\<close> and \<open>rec.get(key, default)\<close>.\<close>

definition rec_get :: "pyrec \<Rightarrow> string \<Rightarrow> pyval" where
  "rec_get rec key = (case rec key of None \<Rightarrow> VNone | Some v \<Rightarrow> v)"

definition rec_get_default :: "pyrec \<Rightarrow> string \<Rightarrow> pyval \<Rightarrow> pyval" where
  "rec_get_default rec key d = (case rec key of None \<Rightarrow> d | Some v \<Rightarrow> v)"

text \<open>
  The record collection \<open>Dict[str, Dict[str, Any]]\<close> is the list of its items
  (identifier, record) in iteration order.
\<close>

type_synonym pyrecords = "(string \<times> pyrec) list"

fun get_status_from :: "string list \<Rightarrow> pyrec \<Rightarrow> string" where
  "get_status_from [] rec = []"
| "get_status_from (key # keys) rec =
     (let val = rec_get rec key in
      if py_truthy val then py_strip (py_str val) else get_status_from keys rec)"

definition get_status :: "pyrec \<Rightarrow> string" where
  "get_status rec = get_status_from [''colrev_status'', ''status'', ''screening_status''] rec"

section \<open>Origin statistics\<close>

definition split_origin :: "pyval \<Rightarrow> string list" where
  "split_origin v =
     (if \<not> py_truthy v then []
      else (case v of
              VStr s \<Rightarrow> map py_strip (filter (\<lambda>p. py_strip p \<noteq> []) (py_split CHR '';'' s))
            | VList ps r \<Rightarrow>
                map (\<lambda>p. py_strip (py_str p)) (filter (\<lambda>p. py_strip (py_str p) \<noteq> []) ps)
            | _ \<Rightarrow> []))"

text \<open>
  The loop of \<open>compute_origin_stats\<close>; its state is
  \<open>(total_origins, kept, any_origin)\<close>.
\<close>

fun origin_loop ::
  "string \<Rightarrow> string \<Rightarrow> pyrecords \<Rightarrow> int \<times> int \<times> bool \<Rightarrow> int \<times> int \<times> bool" where
  "origin_loop origin_field px [] st = st"
| "origin_loop origin_field px ((rid, rec) # rest) (total_origins, kept, any_origin) =
     (if startswith rid px then origin_loop origin_field px rest (total_origins, kept, any_origin)
      else (let parts = split_origin (rec_get rec origin_field) in
            if parts \<noteq> []
            then origin_loop origin_field px rest
                   (total_origins + int (length parts), kept + 1, True)
            else origin_loop origin_field px rest (total_origins, kept + 1, any_origin)))"

definition compute_origin_stats_with ::
  "string \<Rightarrow> string \<Rightarrow> pyrecords \<Rightarrow> int option \<times> int option" where
  "compute_origin_stats_with origin_field record_id_prefix_exclude records =
     (case origin_loop origin_field record_id_prefix_exclude records (0, 0, False) of
        (total_origins, kept, any_origin) \<Rightarrow>
          if \<not> any_origin then (None, None)
          else (Some total_origins, Some (max 0 (total_origins - kept))))"

text \<open>The call with the default keyword arguments.\<close>

definition compute_origin_stats :: "pyrecords \<Rightarrow> int option \<times> int option" where
  "compute_origin_stats records = compute_origin_stats_with ''colrev_origin'' ''md_'' records"

section \<open>Screening criteria\<close>

text \<open>
  A Python \<open>dict\<close> that the code builds and then iterates is an association list in
  insertion order: \<open>d[k] = v\<close> is \<open>AList.update k v d\<close>, which overwrites the value of a
  key that is present, in place, and appends a new key at the end.
\<close>

definition out_vals :: "string list" where
  "out_vals = [''out'', ''exclude'', ''excluded'', ''0'', ''false'', ''no'']"

definition in_vals :: "string list" where
  "in_vals = [''in'', ''include'', ''included'', ''1'', ''true'', ''yes'']"

text \<open>The last statements of the loop body, from \<open>k, v = k.strip(), v.strip().lower()\<close> on.\<close>

definition set_flag :: "string \<times> string \<Rightarrow> (string \<times> int) list \<Rightarrow> (string \<times> int) list" where
  "set_flag kv result =
     (let k = py_strip (fst kv); v = py_lower (py_strip (snd kv)) in
      if v \<in> set out_vals then AList.update k 1 result
      else if v \<in> set in_vals then AList.update k 0 result
      else result)"

text \<open>The loop body: one part of the field.\<close>

definition parse_part :: "string \<Rightarrow> (string \<times> int) list \<Rightarrow> (string \<times> int) list" where
  "parse_part part result =
     (if CHR ''='' \<in> set part then set_flag (split_first CHR ''='' part) result
      else if CHR '':'' \<in> set part then set_flag (split_first CHR '':'' part) result
      else result)"

text \<open>\<open>s.replace(";", ",").split(",")\<close>, for \<open>s\<close> the stripped rendering of the field.\<close>

definition criteria_parts :: "pyval \<Rightarrow> string list" where
  "criteria_parts v =
     (let s = py_strip_chars ''{}'' (py_strip (py_str v)) in
      py_split CHR '','' (py_replace CHR '';'' CHR '','' s))"

definition parse_screening_criteria :: "pyval \<Rightarrow> (string \<times> int) list" where
  "parse_screening_criteria v =
     (if \<not> py_truthy v then [] else fold parse_part (criteria_parts v) [])"

section \<open>The PRISMA status\<close>

text \<open>Every field of the dataclass is optional; \<open>None\<close> is the absent value.\<close>

record PrismaStatus =
  databases :: "int option"
  registers :: "int option"
  duplicates :: "int option"
  automation :: "int option"
  other_removed :: "int option"
  screened :: "int option"
  records_excluded :: "int option"
  reports_sought :: "int option"
  not_retrieved :: "int option"
  assessed :: "int option"
  reports_excluded :: "(string \<times> int) list option"
  included :: "int option"
  new_reports :: "int option"

text \<open>
  Python's \<open>==\<close> on two dicts: the same items, in whatever order they were inserted.
\<close>

definition dict_eq :: "('k \<times> 'v) list \<Rightarrow> ('k \<times> 'v) list \<Rightarrow> bool" where
  "dict_eq d e = (set d = set e)"

text \<open>
  The \<open>__eq__\<close> that \<open>@dataclass\<close> generates compares the fields in turn with \<open>==\<close>.
\<close>

definition PrismaStatus_eq :: "PrismaStatus \<Rightarrow> PrismaStatus \<Rightarrow> bool" where
  "PrismaStatus_eq a b =
     (databases a = databases b \<and> registers a = registers b \<and>
      duplicates a = duplicates b \<and> automation a = automation b \<and>
      other_removed a = other_removed b \<and> screened a = screened b \<and>
      records_excluded a = records_excluded b \<and> reports_sought a = reports_sought b \<and>
      not_retrieved a = not_retrieved b \<and> assessed a = assessed b \<and>
      rel_option dict_eq (reports_excluded a) (reports_excluded b) \<and>
      included a = included b \<and> new_reports a = new_reports b)"

section \<open>The main mapping\<close>

text \<open>\<open>d[k]\<close> raises \<open>KeyError\<close> for a missing key; \<open>d.get(k, default)\<close> does not.\<close>

definition py_getitem :: "('k \<times> 'v) list \<Rightarrow> 'k \<Rightarrow> py_error + 'v" where
  "py_getitem d k = (case map_of d k of None \<Rightarrow> Inl KeyError | Some v \<Rightarrow> Inr v)"

definition dict_get :: "('k \<times> 'v) list \<Rightarrow> 'k \<Rightarrow> 'v \<Rightarrow> 'v" where
  "dict_get d k dflt = (case map_of d k of None \<Rightarrow> dflt | Some v \<Rightarrow> v)"

text \<open>Sequencing of computations that may raise.\<close>

definition py_bind :: "py_error + 'a \<Rightarrow> ('a \<Rightarrow> py_error + 'b) \<Rightarrow> py_error + 'b" where
  "py_bind r f = (case r of Inl e \<Rightarrow> Inl e | Inr x \<Rightarrow> f x)"

definition initial_buckets :: "(string \<times> int) list" where
  "initial_buckets =
     [(''screened'', 0), (''prescreen_excluded'', 0), (''fulltext_excluded'', 0),
      (''pdf_not_retrieved'', 0), (''pdf_retrieved'', 0), (''included'', 0),
      (''duplicate'', 0), (''other'', 0)]"

text \<open>\<open>fulltext_reasons[k] = fulltext_reasons.get(k, 0) + v\<close>.\<close>

definition add_reason :: "string \<Rightarrow> int \<Rightarrow> (string \<times> int) list \<Rightarrow> (string \<times> int) list" where
  "add_reason k v fulltext_reasons =
     AList.update k (dict_get fulltext_reasons k 0 + v) fulltext_reasons"

text \<open>The branch of the loop body taken for a record of the bucket \<open>fulltext_excluded\<close>.\<close>

definition tally_record ::
  "string \<Rightarrow> string \<Rightarrow> pyrec \<Rightarrow> (string \<times> int) list \<Rightarrow> (string \<times> int) list" where
  "tally_record exclusion_reason_key screening_criteria_key rec fulltext_reasons =
     (let parsed = parse_screening_criteria (rec_get rec screening_criteria_key) in
      if parsed \<noteq> [] then fold (\<lambda>(k, v) fr. add_reason k v fr) parsed fulltext_reasons
      else (let r = py_strip (py_str (rec_get_default rec exclusion_reason_key (VStr []))) in
            if r \<noteq> [] then add_reason r 1 fulltext_reasons else fulltext_reasons))"

text \<open>
  The loop over \<open>records.values()\<close>; its state is \<open>(buckets, fulltext_reasons)\<close>.
  \<open>buckets[b] += 1\<close> reads \<open>buckets[b]\<close> first, which raises for a tag that is not a key.
\<close>

fun status_loop ::
  "string \<Rightarrow> string \<Rightarrow> pyrecords \<Rightarrow> (string \<times> int) list \<times> (string \<times> int) list \<Rightarrow>
   py_error + (string \<times> int) list \<times> (string \<times> int) list" where
  "status_loop ek sk [] st = Inr st"
| "status_loop ek sk ((rid, rec) # rest) (buckets, fulltext_reasons) =
     (let b = status_bucket (get_status rec) in
      py_bind (py_getitem buckets b) (\<lambda>n.
        status_loop ek sk rest
          (AList.update b (n + 1) buckets,
           if b = ''fulltext_excluded'' then tally_record ek sk rec fulltext_reasons
           else fulltext_reasons)))"

text \<open>
  The statements after the loop. Each counter is read once here; the source reads some of
  them again, with the same result.
\<close>

definition summarise ::
  "pyrecords \<Rightarrow> (string \<times> int) list \<times> (string \<times> int) list \<Rightarrow> py_error + PrismaStatus" where
  "summarise records st =
     (case st of (buckets, fulltext_reasons) \<Rightarrow>
      py_bind (py_getitem buckets ''screened'') (\<lambda>n_screened.
      py_bind (py_getitem buckets ''prescreen_excluded'') (\<lambda>n_prescreen_excluded.
      py_bind (py_getitem buckets ''pdf_not_retrieved'') (\<lambda>n_pdf_not_retrieved.
      py_bind (py_getitem buckets ''pdf_retrieved'') (\<lambda>n_pdf_retrieved.
      py_bind (py_getitem buckets ''included'') (\<lambda>n_included.
        (let screened_total =
               n_screened + n_prescreen_excluded + n_pdf_not_retrieved + n_pdf_retrieved
               + n_included;
             records_sought = screened_total - n_prescreen_excluded;
             assessed_total = n_pdf_retrieved + n_included
         in (case compute_origin_stats records of (n_origin, dup_removed) \<Rightarrow>
           Inr \<lparr> databases = n_origin,
                 registers = None,
                 duplicates = dup_removed,
                 automation = None,
                 other_removed = None,
                 screened = Some screened_total,
                 records_excluded = Some n_prescreen_excluded,
                 reports_sought = Some records_sought,
                 not_retrieved = Some n_pdf_not_retrieved,
                 assessed = Some assessed_total,
                 reports_excluded =
                   (if fulltext_reasons \<noteq> [] then Some fulltext_reasons else None),
                 included = Some n_included,
                 new_reports = Some n_included \<rparr>))))))))"

definition records_to_status_with :: "string \<Rightarrow> string \<Rightarrow> pyrecords \<Rightarrow> py_error + PrismaStatus" where
  "records_to_status_with exclusion_reason_key screening_criteria_key records =
     py_bind (status_loop exclusion_reason_key screening_criteria_key records
                (initial_buckets, []))
       (summarise records)"

text \<open>The call with the default keyword arguments.\<close>

definition records_to_status :: "pyrecords \<Rightarrow> py_error + PrismaStatus" where
  "records_to_status records =
     records_to_status_with ''exclusion_reason'' ''screening_criteria'' records"

section \<open>The reasons model\<close>

text \<open>
  The values that \<open>normalize_reasons\<close> receives (\<open>ReasonsLike\<close>) and finds inside them:
  \<open>None\<close>, a \<open>bool\<close>, an \<open>int\<close>, a \<open>str\<close>, a mapping with string keys (its items in
  iteration order) and a \<open>ReasonCounts\<close> object with its two fields. Floating-point numbers
  and other objects are not part of this model.
\<close>

datatype rval =
    RNone
  | RBool bool
  | RInt int
  | RStr string
  | RMap "(string \<times> rval) list"
  | RCounts rval rval

record ReasonCounts =
  total :: "int option"
  by_reason :: "(string \<times> rval) list option"

fun r_truthy :: "rval \<Rightarrow> bool" where
  "r_truthy RNone = False"
| "r_truthy (RBool b) = b"
| "r_truthy (RInt n) = (n \<noteq> 0)"
| "r_truthy (RStr s) = (s \<noteq> [])"
| "r_truthy (RMap m) = (m \<noteq> [])"
| "r_truthy (RCounts t b) = True"

text \<open>
  \<open>int(s)\<close> for a string, base ten: whitespace at both ends, an optional sign, then
  digits, where one underscore may stand between two digits. \<open>None\<close> is the
  \<open>ValueError\<close>. The whitespace that \<open>int\<close> skips is that of the C locale, 0x09 .. 0x0D
  and the blank; the separators 0x1C .. 0x1F, which \<open>str.strip()\<close> removes, are an error
  for \<open>int\<close>. A literal of more digits than the interpreter's limit on conversions from
  strings (4300 unless configured otherwise) is refused as well.
\<close>

definition int_whitespace :: "char list" where
  "int_whitespace = [CHR 0x09, CHR 0x0A, CHR 0x0B, CHR 0x0C, CHR 0x0D, CHR '' '']"

definition max_str_digits :: nat where
  "max_str_digits = 4300"

definition digit_val :: "char \<Rightarrow> nat option" where
  "digit_val c = map_of (zip ''0123456789'' [0, 1, 2, 3, 4, 5, 6, 7, 8, 9]) c"

fun digits_value :: "nat \<Rightarrow> string \<Rightarrow> nat option" where
  "digits_value acc [] = Some acc"
| "digits_value acc [c] =
     (case digit_val c of None \<Rightarrow> None | Some d \<Rightarrow> Some (10 * acc + d))"
| "digits_value acc (c # c' # cs) =
     (case digit_val c of
        Some d \<Rightarrow> digits_value (10 * acc + d) (c' # cs)
      | None \<Rightarrow>
          if c = CHR ''_''
          then (case digit_val c' of
                  None \<Rightarrow> None
                | Some d \<Rightarrow> digits_value (10 * acc + d) cs)
          else None)"

definition count_digits :: "string \<Rightarrow> nat" where
  "count_digits s = length (filter (\<lambda>c. digit_val c \<noteq> None) s)"

definition unsigned_value :: "string \<Rightarrow> nat option" where
  "unsigned_value s =
     (case s of
        [] \<Rightarrow> None
      | c # cs \<Rightarrow>
          (case digit_val c of
             None \<Rightarrow> None
           | Some d \<Rightarrow> if max_str_digits < count_digits s then None else digits_value d cs))"

definition int_of_str :: "string \<Rightarrow> int option" where
  "int_of_str s0 =
     (case py_strip_chars int_whitespace s0 of
        [] \<Rightarrow> None
      | c # cs \<Rightarrow>
          if c = CHR ''-'' then map_option (\<lambda>n. - int n) (unsigned_value cs)
          else if c = CHR ''+'' then map_option int (unsigned_value cs)
          else map_option int (unsigned_value (c # cs)))"

text \<open>
  \<open>_to_int\<close>, which strips the string with \<open>str.strip()\<close> before it calls \<open>int\<close>. The
  \<open>str()\<close> of a mapping starts with a brace and that of a \<open>ReasonCounts\<close> with its class
  name, so \<open>int\<close> raises on them and the \<open>except\<close> clause returns \<open>None\<close>.
\<close>

fun to_int :: "rval \<Rightarrow> int option" where
  "to_int RNone = None"
| "to_int (RBool b) = Some (if b then 1 else 0)"
| "to_int (RInt n) = Some n"
| "to_int (RStr s) = int_of_str (py_strip s)"
| "to_int (RMap m) = None"
| "to_int (RCounts t b) = None"

text \<open>The built-in \<open>int(v)\<close>, outside any \<open>try\<close>.\<close>

fun py_int :: "rval \<Rightarrow> py_error + int" where
  "py_int (RInt n) = Inr n"
| "py_int (RBool b) = Inr (if b then 1 else 0)"
| "py_int (RStr s) = (case int_of_str s of None \<Rightarrow> Inl ValueError | Some n \<Rightarrow> Inr n)"
| "py_int RNone = Inl TypeError"
| "py_int (RMap m) = Inl TypeError"
| "py_int (RCounts t b) = Inl TypeError"

text \<open>
  \<open>dict(x)\<close>: a copy of a mapping; a non-empty string is a sequence of one-character
  strings, which are no key-value pairs.
\<close>

fun py_dict :: "rval \<Rightarrow> py_error + (string \<times> rval) list" where
  "py_dict (RMap m) = Inr m"
| "py_dict (RStr s) = (if s = [] then Inr [] else Inl ValueError)"
| "py_dict RNone = Inl TypeError"
| "py_dict (RBool b) = Inl TypeError"
| "py_dict (RInt n) = Inl TypeError"
| "py_dict (RCounts t b) = Inl TypeError"

text \<open>\<open>sum(values)\<close>, which starts from the integer 0 and adds the values in turn.\<close>

fun py_sum :: "rval list \<Rightarrow> int \<Rightarrow> py_error + int" where
  "py_sum [] acc = Inr acc"
| "py_sum (RInt n # vs) acc = py_sum vs (acc + n)"
| "py_sum (RBool b # vs) acc = py_sum vs (acc + (if b then 1 else 0))"
| "py_sum (v # vs) acc = Inl TypeError"

text \<open>The comprehension \<open>{str(k): int(v) for k, v in value.items()}\<close>.\<close>

fun int_items :: "(string \<times> rval) list \<Rightarrow> (string \<times> rval) list \<Rightarrow> py_error + (string \<times> rval) list" where
  "int_items [] acc = Inr acc"
| "int_items ((k, v) # kvs) acc =
     py_bind (py_int v) (\<lambda>n. int_items kvs (AList.update k (RInt n) acc))"

text \<open>\<open>value.get(key)\<close> on a mapping.\<close>

definition map_get :: "(string \<times> rval) list \<Rightarrow> string \<Rightarrow> rval" where
  "map_get m key = (case map_of m key of None \<Rightarrow> RNone | Some v \<Rightarrow> v)"

text \<open>
  A \<open>bool\<close> is an \<open>int\<close> for \<open>isinstance\<close>; the total \<open>True\<close> is written as the integer 1
  it equals.
\<close>

fun normalize_reasons :: "rval \<Rightarrow> py_error + ReasonCounts" where
  "normalize_reasons RNone = Inr \<lparr> total = None, by_reason = None \<rparr>"
| "normalize_reasons (RCounts t b) =
     (if r_truthy b
      then py_bind (py_dict b) (\<lambda>d. Inr \<lparr> total = to_int t, by_reason = Some d \<rparr>)
      else Inr \<lparr> total = to_int t, by_reason = None \<rparr>)"
| "normalize_reasons (RInt n) = Inr \<lparr> total = Some n, by_reason = None \<rparr>"
| "normalize_reasons (RBool b) = Inr \<lparr> total = Some (if b then 1 else 0), by_reason = None \<rparr>"
| "normalize_reasons (RMap m) =
     (if map_of m ''total'' \<noteq> None \<or> map_of m ''by_reason'' \<noteq> None
      then (let tot = to_int (map_get m ''total'');
                by = (if r_truthy (map_get m ''by_reason'') then map_get m ''by_reason''
                      else map_get m ''reasons'')
            in (case by of
                  RMap d \<Rightarrow>
                    if tot = None \<and> d \<noteq> []
                    then py_bind (py_sum (map snd d) 0)
                           (\<lambda>n. Inr \<lparr> total = Some n, by_reason = Some d \<rparr>)
                    else Inr \<lparr> total = tot, by_reason = Some d \<rparr>
                | _ \<Rightarrow> Inr \<lparr> total = tot, by_reason = None \<rparr>))
      else py_bind (int_items m []) (\<lambda>d.
             py_bind (py_sum (map snd d) 0) (\<lambda>n.
               Inr \<lparr> total = Some n, by_reason = Some d \<rparr>)))"
| "normalize_reasons (RStr s) = Inr \<lparr> total = to_int (RStr s), by_reason = None \<rparr>"

text \<open>
  The inputs on which \<open>normalize_reasons\<close> returns, read off the places where it can
  raise: \<open>dict(value.by_reason)\<close> for a true \<open>by_reason\<close> that is no mapping, the bare
  \<open>int(v)\<close> on a value of a direct breakdown, and \<open>sum\<close> over the values of a non-empty
  breakdown when the form with a \<open>total\<close> or \<open>by_reason\<close> key gives no integer total.
\<close>

fun is_int :: "rval \<Rightarrow> bool" where
  "is_int (RInt n) = True"
| "is_int (RBool b) = True"
| "is_int v = False"





text \<open>The integer that \<open>sum\<close> adds for a count.\<close>

fun count_value :: "rval \<Rightarrow> int" where
  "count_value (RInt n) = n"
| "count_value (RBool b) = (if b then 1 else 0)"
| "count_value v = 0"

section \<open>Notions of the specification\<close>

text \<open>The closed set of bucket tags.\<close>

definition bucket_tags :: "string list" where
  "bucket_tags =
     [''prescreen_excluded'', ''fulltext_excluded'', ''screened'', ''pdf_not_retrieved'',
      ''pdf_retrieved'', ''included'', ''duplicate'', ''other'']"

text \<open>
  The substring rules as a table in priority order, each with its markers and its tag (the
  eighth rule is the default), and the tag of the first rule with a marker in the string.
\<close>

definition bucket_rules :: "(string list \<times> string) list" where
  "bucket_rules =
     [([''rev_prescreen_excluded''], ''prescreen_excluded''),
      ([''excluded'', ''reject''], ''fulltext_excluded''),
      ([''prescreen'', ''screened''], ''screened''),
      ([''pdf_needs_manual_retrieval'', ''pdf_not_available''], ''pdf_not_retrieved''),
      ([''pdf_imported'', ''pdf_needs_manual_preparation'', ''pdf_prepared''], ''pdf_retrieved''),
      ([''included'', ''accept'', ''synth''], ''included''),
      ([''duplicate'', ''dedupe''], ''duplicate'')]"

definition first_match :: "string \<Rightarrow> string" where
  "first_match s =
     (case find (\<lambda>r. any_in (fst r) s) bucket_rules of
        None \<Rightarrow> ''other''
      | Some r \<Rightarrow> snd r)"

text \<open>The bucket of a record, and the number of records of a collection in a bucket.\<close>

definition bucket_of :: "pyrec \<Rightarrow> string" where
  "bucket_of rec = status_bucket (get_status rec)"

definition bucket_count :: "string \<Rightarrow> pyrecords \<Rightarrow> int" where
  "bucket_count b records = int (length (filter (\<lambda>p. bucket_of (snd p) = b) records))"

definition screened_sum :: "pyrecords \<Rightarrow> int" where
  "screened_sum records =
     bucket_count ''screened'' records + bucket_count ''prescreen_excluded'' records
     + bucket_count ''pdf_not_retrieved'' records + bucket_count ''pdf_retrieved'' records
     + bucket_count ''included'' records"

text \<open>
  The entries that one record adds to the reason tally: none unless its bucket is
  \<open>fulltext_excluded\<close>; then its parsed criteria when there are any, else its fallback
  reason with the count 1 when that is not empty.
\<close>

definition fallback_reason :: "string \<Rightarrow> pyrec \<Rightarrow> string" where
  "fallback_reason ek rec = py_strip (py_str (rec_get_default rec ek (VStr [])))"

definition reasons_of :: "string \<Rightarrow> string \<Rightarrow> pyrec \<Rightarrow> (string \<times> int) list" where
  "reasons_of ek sk rec =
     (if bucket_of rec \<noteq> ''fulltext_excluded'' then []
      else if parse_screening_criteria (rec_get rec sk) \<noteq> []
           then parse_screening_criteria (rec_get rec sk)
      else if fallback_reason ek rec \<noteq> [] then [(fallback_reason ek rec, 1)]
      else [])"

definition all_reasons :: "string \<Rightarrow> string \<Rightarrow> pyrecords \<Rightarrow> (string \<times> int) list" where
  "all_reasons ek sk records = concat (map (\<lambda>p. reasons_of ek sk (snd p)) records)"

definition add_all :: "(string \<times> int) list \<Rightarrow> (string \<times> int) list \<Rightarrow> (string \<times> int) list" where
  "add_all kvs fr = fold (\<lambda>(k, v) fr. add_reason k v fr) kvs fr"

text \<open>The reason tally at the end of the loop, for the default keys.\<close>

definition reason_tally :: "pyrecords \<Rightarrow> (string \<times> int) list" where
  "reason_tally records =
     add_all (all_reasons ''exclusion_reason'' ''screening_criteria'' records) []"

text \<open>
  The records that \<open>compute_origin_stats\<close> keeps (identifier without the prefix), the
  origin parts of a record, the number of origin parts of the kept records, and whether
  some kept record has an origin part.
\<close>

definition kept_records :: "string \<Rightarrow> pyrecords \<Rightarrow> pyrecords" where
  "kept_records px records = filter (\<lambda>p. \<not> startswith (fst p) px) records"

definition origin_parts :: "string \<Rightarrow> pyrec \<Rightarrow> string list" where
  "origin_parts origin_field rec = split_origin (rec_get rec origin_field)"

definition origin_entries :: "string \<Rightarrow> string \<Rightarrow> pyrecords \<Rightarrow> int" where
  "origin_entries origin_field px records =
     sum_list (map (\<lambda>p. int (length (origin_parts origin_field (snd p)))) (kept_records px records))"

definition origin_tracked :: "string \<Rightarrow> string \<Rightarrow> pyrecords \<Rightarrow> bool" where
  "origin_tracked origin_field px records =
     list_ex (\<lambda>p. origin_parts origin_field (snd p) \<noteq> []) (kept_records px records)"

text \<open>
  The entry that one part of a screening-criteria field stands for: the text before and
  after the first \<open>=\<close> (or, when there is none, the first \<open>:\<close>), the key trimmed, the
  value trimmed and lower-cased, flag 1 for a value of the out-vocabulary, flag 0 for one
  of the in-vocabulary, and no entry otherwise.
\<close>

definition flag_entry :: "string \<times> string \<Rightarrow> (string \<times> int) option" where
  "flag_entry kv =
     (if py_lower (py_strip (snd kv)) \<in> set out_vals then Some (py_strip (fst kv), 1)
      else if py_lower (py_strip (snd kv)) \<in> set in_vals then Some (py_strip (fst kv), 0)
      else None)"

definition entry_of :: "string \<Rightarrow> (string \<times> int) option" where
  "entry_of part =
     (if CHR ''='' \<in> set part then flag_entry (split_first CHR ''='' part)
      else if CHR '':'' \<in> set part then flag_entry (split_first CHR '':'' part)
      else None)"

text \<open>
  What a record of the bucket \<open>fulltext_excluded\<close> adds to the sum of the tally: the
  number of its criteria parsed as out when parsing yields any entry, otherwise 1 for a
  fallback reason that is not empty and 0 for none; and the sum of these over the records
  of that bucket.
\<close>

definition reason_weight :: "pyrec \<Rightarrow> int" where
  "reason_weight rec =
     (if parse_screening_criteria (rec_get rec ''screening_criteria'') \<noteq> []
      then sum_list (map snd (parse_screening_criteria (rec_get rec ''screening_criteria'')))
      else if fallback_reason ''exclusion_reason'' rec \<noteq> [] then 1
      else 0)"

definition excluded_weights :: "pyrecords \<Rightarrow> int" where
  "excluded_weights records =
     sum_list (map (\<lambda>p. reason_weight (snd p))
       (filter (\<lambda>p. bucket_of (snd p) = ''fulltext_excluded'') records))"

text \<open>The sum of the counts that a list of entries holds for one key.\<close>

definition key_sum :: "string \<Rightarrow> (string \<times> int) list \<Rightarrow> int" where
  "key_sum k kvs = sum_list (map snd (filter (\<lambda>p. fst p = k) kvs))"

section \<open>The combined module\<close>

text \<open>
  \<open>py_prisma.py\<close> defines the same functions once more. \<open>get_status\<close> is the same; the
  others differ and are modelled here under names that end in \<open>_mono\<close>.
\<close>

definition status_bucket_mono :: "string \<Rightarrow> string" where
  "status_bucket_mono status =
     (let s = py_lower status in
      if any_in [''md_imported'', ''imported'', ''retrieved_md'', ''md_retrieved''] s
      then ''identified''
      else if any_in [''dedupe'', ''duplicate'', ''md_duplicate''] s then ''duplicate''
      else if any_in [''prescreen'', ''title_abstract'', ''screen'', ''screened''] s
      then ''screened''
      else if any_in [''excluded'', ''reject''] s then ''excluded''
      else if any_in [''pdf'', ''fulltext'', ''full_text'', ''retrieval''] s then ''fulltext''
      else if any_in [''included'', ''accept'', ''synth''] s then ''included''
      else ''other'')"

text \<open>\<open>_split_origin\<close>, which here renders any other true value as one part.\<close>

definition split_origin_mono :: "pyval \<Rightarrow> string list" where
  "split_origin_mono v =
     (if \<not> py_truthy v then []
      else (case v of
              VStr s \<Rightarrow> map py_strip (filter (\<lambda>p. py_strip p \<noteq> []) (py_split CHR '';'' s))
            | VList ps r \<Rightarrow>
                map (\<lambda>p. py_strip (py_str p)) (filter (\<lambda>p. py_strip (py_str p) \<noteq> []) ps)
            | _ \<Rightarrow> (let s = py_strip (py_str v) in if s \<noteq> [] then [s] else [])))"

text \<open>
  The loop of \<open>compute_origin_stats\<close>, with the state
  \<open>(any_origin, total_origin_entries, kept_records)\<close>; the third prefix drops origin
  entries.
\<close>

fun origin_loop_mono ::
  "string \<Rightarrow> string \<Rightarrow> string \<Rightarrow> pyrecords \<Rightarrow> bool \<times> int \<times> int \<Rightarrow> bool \<times> int \<times> int" where
  "origin_loop_mono origin_field px epx [] st = st"
| "origin_loop_mono origin_field px epx ((rid, rec) # rest)
     (any_origin, total_origin_entries, kept) =
     (if startswith rid px
      then origin_loop_mono origin_field px epx rest
             (any_origin, total_origin_entries, kept)
      else (let origin_val = rec_get rec origin_field in
            if \<not> py_truthy origin_val
            then origin_loop_mono origin_field px epx rest
                   (any_origin, total_origin_entries, kept + 1)
            else (let parts = filter (\<lambda>p. \<not> startswith p epx) (split_origin_mono origin_val) in
                  origin_loop_mono origin_field px epx rest
                    (True, total_origin_entries + int (length parts), kept + 1))))"

definition compute_origin_stats_mono :: "pyrecords \<Rightarrow> int option \<times> int option" where
  "compute_origin_stats_mono records =
     (case origin_loop_mono ''colrev_origin'' ''md_'' ''md_'' records (False, 0, 0) of
        (any_origin, total_origin_entries, kept) \<Rightarrow>
          if \<not> any_origin then (None, None)
          else (Some total_origin_entries, Some (max 0 (total_origin_entries - kept))))"

text \<open>\<open>s.rstrip(chars)\<close> and \<open>s.endswith(p)\<close>.\<close>

definition py_rstrip_chars :: "char list \<Rightarrow> string \<Rightarrow> string" where
  "py_rstrip_chars cs s = rev (dropWhile (\<lambda>c. c \<in> set cs) (rev s))"

definition endswith :: "string \<Rightarrow> string \<Rightarrow> bool" where
  "endswith s p = startswith (rev s) (rev p)"

definition out_vals_mono :: "string list" where
  "out_vals_mono = [''out'', ''exclude'', ''excluded'', ''0'', ''false'', ''no'', ''n'']"

definition in_vals_mono :: "string list" where
  "in_vals_mono = [''in'', ''include'', ''included'', ''1'', ''true'', ''yes'', ''y'']"

text \<open>
  The list \<open>raw_parts\<close>: the non-blank pieces between commas of the non-blank chunks
  between semicolons, all trimmed.
\<close>

definition raw_parts_mono :: "string \<Rightarrow> string list" where
  "raw_parts_mono s =
     concat (map (\<lambda>chunk. map py_strip (filter (\<lambda>p. py_strip p \<noteq> [])
                              (py_split CHR '','' (py_strip chunk))))
                 (filter (\<lambda>chunk. py_strip chunk \<noteq> []) (py_split CHR '';'' s)))"

text \<open>
  The end of the loop body, from \<open>key = k.strip()\<close> on; the value loses braces, double
  quotes (0x22) and single quotes (0x27) at its ends.
\<close>

definition set_flag_mono :: "string \<times> string \<Rightarrow> (string \<times> int) list \<Rightarrow> (string \<times> int) list" where
  "set_flag_mono kv out =
     (let key = py_strip (fst kv);
          val = py_strip (py_strip_chars [CHR 0x27] (py_strip_chars [CHR 0x22]
                  (py_strip_chars ''{}'' (py_lower (py_strip (snd kv))))))
      in if key = [] \<or> val = [] then out
         else if val \<in> set out_vals_mono then AList.update key 1 out
         else if val \<in> set in_vals_mono then AList.update key 0 out
         else out)"

definition parse_part_mono :: "string \<Rightarrow> (string \<times> int) list \<Rightarrow> (string \<times> int) list" where
  "parse_part_mono part out =
     (if CHR ''='' \<in> set part then set_flag_mono (split_first CHR ''='' part) out
      else if CHR '':'' \<in> set part then set_flag_mono (split_first CHR '':'' part) out
      else out)"

text \<open>\<open>s[1:-1]\<close> is \<open>butlast (tl s)\<close>.\<close>

definition parse_screening_criteria_mono :: "pyval \<Rightarrow> (string \<times> int) list" where
  "parse_screening_criteria_mono v =
     (if \<not> py_truthy v then []
      else (let s0 = py_strip (py_str v);
                s1 = (if startswith s0 ''{'' \<and> endswith s0 ''}''
                      then py_strip (butlast (tl s0)) else s0);
                s = py_strip (py_rstrip_chars '','' s1)
            in if s = [] then [] else fold parse_part_mono (raw_parts_mono s) []))"

definition initial_buckets_mono :: "(string \<times> int) list" where
  "initial_buckets_mono =
     [(''identified'', 0), (''duplicate'', 0), (''screened'', 0), (''excluded'', 0),
      (''fulltext'', 0), (''included'', 0), (''other'', 0)]"

text \<open>
  The loop of \<open>records_to_status\<close>, with the state
  \<open>(buckets, criteria_reasons_count, single_reasons_count)\<close>.
\<close>

fun status_loop_mono ::
  "string \<Rightarrow> string \<Rightarrow> pyrecords \<Rightarrow>
   (string \<times> int) list \<times> (string \<times> int) list \<times> (string \<times> int) list \<Rightarrow>
   py_error + (string \<times> int) list \<times> (string \<times> int) list \<times> (string \<times> int) list" where
  "status_loop_mono ek sk [] st = Inr st"
| "status_loop_mono ek sk ((rid, rec) # rest)
     (buckets, criteria_reasons_count, single_reasons_count) =
     (let b = status_bucket_mono (get_status rec) in
      py_bind (py_getitem buckets b) (\<lambda>n.
        (let buckets' = AList.update b (n + 1) buckets in
         if b \<noteq> ''excluded''
         then status_loop_mono ek sk rest (buckets', criteria_reasons_count, single_reasons_count)
         else (let parsed = parse_screening_criteria_mono (rec_get rec sk) in
               if parsed \<noteq> []
               then status_loop_mono ek sk rest
                      (buckets', fold (\<lambda>(reason, n) c. add_reason reason n c) parsed
                                   criteria_reasons_count,
                       single_reasons_count)
               else (let reason = py_strip (py_str (rec_get_default rec ek (VStr []))) in
                     status_loop_mono ek sk rest
                       (buckets', criteria_reasons_count,
                        if reason \<noteq> [] then add_reason reason 1 single_reasons_count
                        else single_reasons_count))))))"

definition summarise_mono ::
  "pyrecords \<Rightarrow> (string \<times> int) list \<times> (string \<times> int) list \<times> (string \<times> int) list \<Rightarrow>
   py_error + PrismaStatus" where
  "summarise_mono records st =
     (case st of (buckets, criteria_reasons_count, single_reasons_count) \<Rightarrow>
      py_bind (py_getitem buckets ''screened'') (\<lambda>n_screened.
      py_bind (py_getitem buckets ''excluded'') (\<lambda>n_excluded.
      py_bind (py_getitem buckets ''fulltext'') (\<lambda>n_fulltext.
      py_bind (py_getitem buckets ''included'') (\<lambda>n_included.
        (let screened_total = n_screened + n_excluded + n_fulltext + n_included;
             reports_sought_total = n_fulltext + n_included;
             assessed_total = n_fulltext + n_included
         in (case compute_origin_stats_mono records of (n_origin_entries, duplicates_removed) \<Rightarrow>
           py_bind (case n_origin_entries of
                      Some n \<Rightarrow> Inr n
                    | None \<Rightarrow>
                        py_bind (py_getitem buckets ''identified'') (\<lambda>n_identified.
                        py_bind (py_getitem buckets ''other'') (\<lambda>n_other.
                          Inr (n_identified + n_screened + n_fulltext + n_included
                               + n_excluded + n_other))))
             (\<lambda>databases_identified.
           py_bind (case duplicates_removed of
                      Some n \<Rightarrow> Inr n
                    | None \<Rightarrow> py_getitem buckets ''duplicate'')
             (\<lambda>duplicates_removed_final.
           Inr \<lparr> databases = Some databases_identified,
                 registers = None,
                 duplicates = Some duplicates_removed_final,
                 automation = None,
                 other_removed = None,
                 screened = Some screened_total,
                 records_excluded = Some n_excluded,
                 reports_sought = Some reports_sought_total,
                 not_retrieved = None,
                 assessed = Some assessed_total,
                 reports_excluded =
                   (if criteria_reasons_count \<noteq> [] then Some criteria_reasons_count
                    else if single_reasons_count \<noteq> [] then Some single_reasons_count
                    else None),
                 included = Some n_included,
                 new_reports = Some n_included \<rparr>)))))))))"

definition records_to_status_mono :: "pyrecords \<Rightarrow> py_error + PrismaStatus" where
  "records_to_status_mono records =
     py_bind (status_loop_mono ''exclusion_reason'' ''screening_criteria'' records
                (initial_buckets_mono, [], []))
       (summarise_mono records)"

text \<open>The tags and the bucket counts of the combined module.\<close>

definition bucket_tags_mono :: "string list" where
  "bucket_tags_mono =
     [''identified'', ''duplicate'', ''screened'', ''excluded'', ''fulltext'', ''included'',
      ''other'']"

definition bucket_count_mono :: "string \<Rightarrow> pyrecords \<Rightarrow> int" where
  "bucket_count_mono b records =
     int (length (filter (\<lambda>p. status_bucket_mono (get_status (snd p)) = b) records))"

section \<open>The status classifier\<close>

lemma status_bucket_tag: "status_bucket s \<in> set bucket_tags"
  by (simp add: status_bucket_def bucket_tags_def Let_def)

lemma status_bucket_rules: "status_bucket s = first_match (py_lower s)"
  by (simp add: status_bucket_def first_match_def bucket_rules_def any_in_def Let_def
      PDF_NOT_RETRIEVED_STATUSES_def PDF_RETRIEVED_STATUSES_def)

lemma status_bucket_example:
  "status_bucket ''rev_prescreen_excluded'' = ''prescreen_excluded''"
  by (simp add: status_bucket_def py_lower_def lower_char_def)

text \<open>
  Claim C1. For every status string, \<open>status_bucket\<close> returns one tag of the closed set
  of eight tags, and the tag is that of the first rule, in priority order, with a marker
  in the lower-cased string (\<open>other\<close> when there is none). The status
  \<open>rev_prescreen_excluded\<close> has markers of the first three rules and gets the tag of the
  first, \<open>prescreen_excluded\<close>.
\<close>

theorem status_bucket_closed_set_first_match:
  "status_bucket s \<in> set bucket_tags \<and>
   status_bucket s = first_match (py_lower s) \<and>
   any_in [''excluded'', ''reject''] ''rev_prescreen_excluded'' \<and>
   any_in [''prescreen'', ''screened''] ''rev_prescreen_excluded'' \<and>
   status_bucket ''rev_prescreen_excluded'' = ''prescreen_excluded''"
proof -
  have "any_in [''excluded'', ''reject''] ''rev_prescreen_excluded''"
    by (simp add: any_in_def)
  moreover have "any_in [''prescreen'', ''screened''] ''rev_prescreen_excluded''"
    by (simp add: any_in_def)
  ultimately show ?thesis
    using status_bucket_tag status_bucket_rules status_bucket_example by simp
qed

section \<open>The loop of the main mapping\<close>

lemma add_all_Nil [simp]: "add_all [] fr = fr"
  by (simp add: add_all_def)

lemma add_all_Cons [simp]: "add_all ((k, v) # kvs) fr = add_all kvs (add_reason k v fr)"
  by (simp add: add_all_def)

lemma add_all_append [simp]: "add_all (xs @ ys) fr = add_all ys (add_all xs fr)"
  by (simp add: add_all_def)

lemma tally_record_add_all:
  "(if bucket_of rec = ''fulltext_excluded'' then tally_record ek sk rec fr else fr)
   = add_all (reasons_of ek sk rec) fr"
  by (simp add: tally_record_def reasons_of_def Let_def add_all_def fallback_reason_def)

lemma py_getitem_key:
  "k \<in> fst ` set d \<Longrightarrow> py_getitem d k = Inr (dict_get d k dflt)"
  by (auto simp: py_getitem_def dict_get_def map_of_eq_None_iff split: option.splits)

lemma keys_update: "k \<in> fst ` set d \<Longrightarrow> fst ` set (AList.update k v d) = fst ` set d"
  using AList.dom_update [of k v d] by (auto simp: insert_absorb)

lemma dict_get_update:
  "dict_get (AList.update k v d) k' dflt = (if k' = k then v else dict_get d k' dflt)"
  by (simp add: dict_get_def update_conv')

lemma bucket_count_Nil [simp]: "bucket_count b [] = 0"
  by (simp add: bucket_count_def)

lemma bucket_count_Cons [simp]:
  "bucket_count b ((rid, rec) # rest) = (if bucket_of rec = b then 1 else 0) + bucket_count b rest"
  by (simp add: bucket_count_def)

text \<open>
  The loop never raises when every tag is a key of \<open>buckets\<close>: it keeps the keys, adds to
  each counter the number of records of that bucket, and adds the records' reasons to the
  tally in order.
\<close>

lemma status_loop_result:
  "set bucket_tags \<subseteq> fst ` set bk \<Longrightarrow>
   \<exists>bk'. status_loop ek sk records (bk, fr) = Inr (bk', add_all (all_reasons ek sk records) fr)
     \<and> fst ` set bk' = fst ` set bk
     \<and> (\<forall>b. dict_get bk' b 0 = dict_get bk b 0 + bucket_count b records)"
proof (induction records arbitrary: bk fr)
  case Nil
  then show ?case by (simp add: all_reasons_def)
next
  case (Cons p rest)
  obtain rid rec where p: "p = (rid, rec)" by (cases p)
  let ?b = "bucket_of rec"
  have key: "?b \<in> fst ` set bk"
    using Cons.prems status_bucket_tag [of "get_status rec"] by (auto simp: bucket_of_def)
  let ?bk = "AList.update ?b (dict_get bk ?b 0 + 1) bk"
  have keys: "fst ` set ?bk = fst ` set bk"
    using key by (rule keys_update)
  with Cons.prems have "set bucket_tags \<subseteq> fst ` set ?bk" by simp
  from Cons.IH [OF this, of "add_all (reasons_of ek sk rec) fr"]
  obtain bk' where
    loop: "status_loop ek sk rest (?bk, add_all (reasons_of ek sk rec) fr)
           = Inr (bk', add_all (all_reasons ek sk rest) (add_all (reasons_of ek sk rec) fr))"
    and dom: "fst ` set bk' = fst ` set ?bk"
    and cnt: "\<forall>b. dict_get bk' b 0 = dict_get ?bk b 0 + bucket_count b rest"
    by blast
  have step: "status_loop ek sk (p # rest) (bk, fr)
              = status_loop ek sk rest (?bk, add_all (reasons_of ek sk rec) fr)"
    using py_getitem_key [OF key, of 0] tally_record_add_all [of rec ek sk fr]
    by (simp add: p py_bind_def Let_def bucket_of_def)
  have "\<forall>b. dict_get bk' b 0 = dict_get bk b 0 + bucket_count b (p # rest)"
    using cnt by (simp add: p dict_get_update)
  with step loop dom keys show ?case
    by (simp add: all_reasons_def p)
qed

lemma initial_buckets_tags: "set bucket_tags \<subseteq> fst ` set initial_buckets"
  by (simp add: bucket_tags_def initial_buckets_def)

lemma initial_buckets_zero: "dict_get initial_buckets b 0 = 0"
  by (simp add: dict_get_def initial_buckets_def)

lemma status_loop_initial:
  "\<exists>bk. status_loop ek sk records (initial_buckets, [])
          = Inr (bk, add_all (all_reasons ek sk records) [])
     \<and> (\<forall>b \<in> set bucket_tags. py_getitem bk b = Inr (bucket_count b records))"
proof -
  from status_loop_result [OF initial_buckets_tags, of ek sk records "[]"]
  obtain bk where
    loop: "status_loop ek sk records (initial_buckets, [])
           = Inr (bk, add_all (all_reasons ek sk records) [])"
    and keys: "fst ` set bk = fst ` set initial_buckets"
    and cnt: "\<forall>b. dict_get bk b 0 = dict_get initial_buckets b 0 + bucket_count b records"
    by blast
  have "py_getitem bk b = Inr (bucket_count b records)" if "b \<in> set bucket_tags" for b
  proof -
    from that initial_buckets_tags keys have "b \<in> fst ` set bk" by blast
    from py_getitem_key [OF this, of 0] cnt show ?thesis
      by (simp add: initial_buckets_zero)
  qed
  with loop show ?thesis by blast
qed

text \<open>\<open>records_to_status\<close> returns for every collection, and this is what it returns.\<close>

lemma records_to_status_closed:
  "records_to_status records =
     Inr \<lparr> databases = fst (compute_origin_stats records),
           registers = None,
           duplicates = snd (compute_origin_stats records),
           automation = None,
           other_removed = None,
           screened = Some (screened_sum records),
           records_excluded = Some (bucket_count ''prescreen_excluded'' records),
           reports_sought =
             Some (screened_sum records - bucket_count ''prescreen_excluded'' records),
           not_retrieved = Some (bucket_count ''pdf_not_retrieved'' records),
           assessed =
             Some (bucket_count ''pdf_retrieved'' records + bucket_count ''included'' records),
           reports_excluded =
             (if reason_tally records \<noteq> [] then Some (reason_tally records) else None),
           included = Some (bucket_count ''included'' records),
           new_reports = Some (bucket_count ''included'' records) \<rparr>"
proof -
  from status_loop_initial [of "''exclusion_reason''" "''screening_criteria''" records]
  obtain bk where
    loop: "status_loop ''exclusion_reason'' ''screening_criteria'' records (initial_buckets, [])
           = Inr (bk, reason_tally records)"
    and get: "\<forall>b \<in> set bucket_tags. py_getitem bk b = Inr (bucket_count b records)"
    unfolding reason_tally_def by blast
  from get have g:
    "py_getitem bk ''screened'' = Inr (bucket_count ''screened'' records)"
    "py_getitem bk ''prescreen_excluded'' = Inr (bucket_count ''prescreen_excluded'' records)"
    "py_getitem bk ''pdf_not_retrieved'' = Inr (bucket_count ''pdf_not_retrieved'' records)"
    "py_getitem bk ''pdf_retrieved'' = Inr (bucket_count ''pdf_retrieved'' records)"
    "py_getitem bk ''included'' = Inr (bucket_count ''included'' records)"
    by (simp_all add: bucket_tags_def)
  show ?thesis
    by (simp add: records_to_status_def records_to_status_with_def loop py_bind_def
        summarise_def g Let_def screened_sum_def split: prod.splits)
qed

lemma get_status_single:
  "key \<in> {''colrev_status'', ''status'', ''screening_status''} \<Longrightarrow> s \<noteq> [] \<Longrightarrow>
   get_status [key \<mapsto> VStr s] = py_strip s"
  by (auto simp: get_status_def rec_get_def)

lemma bucket_single:
  "key \<in> {''colrev_status'', ''status'', ''screening_status''} \<Longrightarrow> s \<noteq> [] \<Longrightarrow>
   bucket_of [key \<mapsto> VStr s] = status_bucket (py_strip s)"
  by (simp add: bucket_of_def get_status_single)

lemma example_buckets:
  "status_bucket (py_strip ''rev_prescreen_excluded'') = ''prescreen_excluded''"
  "status_bucket (py_strip ''pdf_prepared'') = ''pdf_retrieved''"
  "status_bucket (py_strip ''rev_included'') = ''included''"
  by (simp_all add: status_bucket_def py_lower_def lower_char_def any_in_def
      PDF_NOT_RETRIEVED_STATUSES_def PDF_RETRIEVED_STATUSES_def
      py_strip_def py_strip_chars_def py_whitespace_def)

text \<open>
  Claim C2. For four records whose only field is a status field (under any of the three
  status keys, with any identifiers) holding \<open>rev_prescreen_excluded\<close>, \<open>pdf_prepared\<close>,
  \<open>rev_included\<close> and \<open>rev_included\<close>, \<open>records_to_status\<close> returns a status with
  \<open>screened = 4\<close>, \<open>records_excluded = 1\<close>, \<open>reports_sought = 3\<close>, \<open>assessed = 3\<close> and
  \<open>included = 2\<close>.
\<close>

theorem records_to_status_example:
  assumes "key \<in> {''colrev_status'', ''status'', ''screening_status''}"
  shows "\<exists>st. records_to_status
            [(i1, [key \<mapsto> VStr ''rev_prescreen_excluded'']),
             (i2, [key \<mapsto> VStr ''pdf_prepared'']),
             (i3, [key \<mapsto> VStr ''rev_included'']),
             (i4, [key \<mapsto> VStr ''rev_included''])] = Inr st
          \<and> screened st = Some 4 \<and> records_excluded st = Some 1
          \<and> reports_sought st = Some 3 \<and> assessed st = Some 3 \<and> included st = Some 2"
  by (simp add: records_to_status_closed screened_sum_def bucket_single [OF assms]
      example_buckets)

theorem records_to_status_example_witness:
  "\<exists>st. records_to_status
            [(''r1'', [''colrev_status'' \<mapsto> VStr ''rev_prescreen_excluded'']),
             (''r2'', [''colrev_status'' \<mapsto> VStr ''pdf_prepared'']),
             (''r3'', [''colrev_status'' \<mapsto> VStr ''rev_included'']),
             (''r4'', [''colrev_status'' \<mapsto> VStr ''rev_included''])] = Inr st
          \<and> screened st = Some 4 \<and> records_excluded st = Some 1
          \<and> reports_sought st = Some 3 \<and> assessed st = Some 3 \<and> included st = Some 2"
  using records_to_status_example [of "''colrev_status''" "''r1''" "''r2''" "''r3''" "''r4''"]
  by simp

text \<open>
  Claim C3. For every record collection \<open>records_to_status\<close> returns a status in which
  \<open>screened\<close> is the sum of the counts of the buckets \<open>screened\<close>, \<open>prescreen_excluded\<close>,
  \<open>pdf_not_retrieved\<close>, \<open>pdf_retrieved\<close> and \<open>included\<close>, \<open>records_excluded\<close> is the count of
  \<open>prescreen_excluded\<close>, \<open>assessed\<close> is the sum of the counts of \<open>pdf_retrieved\<close> and
  \<open>included\<close>, and \<open>reports_sought\<close> is \<open>screened\<close> minus \<open>records_excluded\<close>.
\<close>

theorem reports_sought_identity:
  "\<exists>st s e. records_to_status records = Inr st
     \<and> screened st = Some s \<and> records_excluded st = Some e
     \<and> reports_sought st = Some (s - e)
     \<and> s = bucket_count ''screened'' records + bucket_count ''prescreen_excluded'' records
           + bucket_count ''pdf_not_retrieved'' records + bucket_count ''pdf_retrieved'' records
           + bucket_count ''included'' records
     \<and> e = bucket_count ''prescreen_excluded'' records
     \<and> assessed st
         = Some (bucket_count ''pdf_retrieved'' records + bucket_count ''included'' records)"
  by (simp add: records_to_status_closed screened_sum_def)

section \<open>The origin statistics\<close>

lemma origin_loop_closed:
  "origin_loop f px records (t, k, a) =
     (t + origin_entries f px records,
      k + int (length (kept_records px records)),
      a \<or> origin_tracked f px records)"
proof (induction records arbitrary: t k a)
  case Nil
  then show ?case
    by (simp add: origin_entries_def kept_records_def origin_tracked_def)
next
  case (Cons p rest)
  obtain rid rec where p: "p = (rid, rec)" by (cases p)
  show ?case
    by (simp add: p Cons.IH origin_entries_def kept_records_def origin_tracked_def
        origin_parts_def Let_def)
qed

lemma compute_origin_stats_closed:
  "compute_origin_stats records =
     (if origin_tracked ''colrev_origin'' ''md_'' records
      then (Some (origin_entries ''colrev_origin'' ''md_'' records),
            Some (max 0 (origin_entries ''colrev_origin'' ''md_'' records
                         - int (length (kept_records ''md_'' records)))))
      else (None, None))"
  by (simp add: compute_origin_stats_def compute_origin_stats_with_def origin_loop_closed)

lemma origin_tracked_iff:
  "origin_tracked f px records \<longleftrightarrow>
     (\<exists>p \<in> set records. \<not> startswith (fst p) px \<and> split_origin (rec_get (snd p) f) \<noteq> [])"
  unfolding origin_tracked_def kept_records_def origin_parts_def list_ex_iff
  by (simp add: Bex_def)

lemma split_origin_a: "split_origin (VStr ''a'') = [''a'']"
  by (simp add: split_origin_def py_strip_def py_strip_chars_def py_whitespace_def)

text \<open>
  Claim C6, as the code has it. \<open>compute_origin_stats\<close> returns \<open>(None, None)\<close> if and
  only if no kept record (a record whose identifier does not start with \<open>md_\<close>) has an
  origin value with a non-empty trimmed part; in every other case both results are
  integers. Records with the prefix are skipped before their origin field is read, and an
  origin value without a non-blank part counts as no origin.
\<close>

theorem origin_stats_none_iff:
  "(compute_origin_stats records = (None, None) \<longleftrightarrow>
      (\<forall>p \<in> set records. \<not> startswith (fst p) ''md_'' \<longrightarrow>
          split_origin (rec_get (snd p) ''colrev_origin'') = []))
   \<and> (compute_origin_stats records \<noteq> (None, None) \<longrightarrow>
        (\<exists>t d. compute_origin_stats records = (Some t, Some d)))"
  by (auto simp: compute_origin_stats_closed origin_tracked_iff)

theorem origin_stats_none_iff_witness:
  "\<exists>t d. compute_origin_stats [(''r1'', [''colrev_origin'' \<mapsto> VStr ''a''])] = (Some t, Some d)"
proof -
  have "\<not> (\<forall>p \<in> set [(''r1'', [''colrev_origin'' \<mapsto> VStr ''a''])].
            \<not> startswith (fst p) ''md_'' \<longrightarrow>
            split_origin (rec_get (snd p) ''colrev_origin'') = [])"
    by (simp add: rec_get_def split_origin_a)
  with origin_stats_none_iff [of "[(''r1'', [''colrev_origin'' \<mapsto> VStr ''a''])]"]
  show ?thesis by blast
qed

text \<open>
  The claim as stated fails: the only record of this collection has the origin value
  \<open>a\<close>, and the result is \<open>(None, None)\<close>, since the record's identifier starts with
  \<open>md_\<close>.
\<close>

theorem origin_stats_none_counterexample:
  "compute_origin_stats [(''md_1'', [''colrev_origin'' \<mapsto> VStr ''a''])] = (None, None)
   \<and> py_truthy (rec_get [''colrev_origin'' \<mapsto> VStr ''a''] ''colrev_origin'')"
  by (simp add: compute_origin_stats_def compute_origin_stats_with_def rec_get_def)

text \<open>
  Claim C7, as the code has it. When some kept record has an origin value with a non-empty
  trimmed part, \<open>compute_origin_stats\<close> returns as \<open>total_origin_entries\<close> the number of
  origin parts of the kept records (the non-blank trimmed pieces between semicolons of a
  string, the non-blank trimmed elements of a list), and as \<open>duplicates_removed\<close> the
  maximum of 0 and \<open>total_origin_entries\<close> minus the number of kept records. For the
  records \<open>r1\<close> with origin \<open>a;b\<close> and \<open>r2\<close> with origin \<open>c\<close> it returns 3 and 1.
\<close>

theorem origin_stats_values:
  "((\<exists>p \<in> set records. \<not> startswith (fst p) ''md_'' \<and>
        split_origin (rec_get (snd p) ''colrev_origin'') \<noteq> []) \<longrightarrow>
      compute_origin_stats records =
        (Some (origin_entries ''colrev_origin'' ''md_'' records),
         Some (max 0 (origin_entries ''colrev_origin'' ''md_'' records
                      - int (length (kept_records ''md_'' records))))))
   \<and> compute_origin_stats
        [(''r1'', [''colrev_origin'' \<mapsto> VStr ''a;b'']),
         (''r2'', [''colrev_origin'' \<mapsto> VStr ''c''])] = (Some 3, Some 1)"
proof -
  have "compute_origin_stats
        [(''r1'', [''colrev_origin'' \<mapsto> VStr ''a;b'']),
         (''r2'', [''colrev_origin'' \<mapsto> VStr ''c''])] = (Some 3, Some 1)"
    by (simp add: compute_origin_stats_def compute_origin_stats_with_def split_origin_def
        rec_get_def py_strip_def py_strip_chars_def py_whitespace_def)
  then show ?thesis
    by (simp add: compute_origin_stats_closed origin_tracked_iff)
qed

theorem origin_stats_values_witness:
  "compute_origin_stats
     [(''r1'', [''colrev_origin'' \<mapsto> VStr ''a;b;c'']), (''md_2'', Map.empty), (''r3'', Map.empty)]
   = (Some 3, Some 1)"
proof -
  let ?rs = "[(''r1'', [''colrev_origin'' \<mapsto> VStr ''a;b;c'']), (''md_2'', Map.empty),
              (''r3'', Map.empty)] :: pyrecords"
  have parts: "split_origin (VStr ''a;b;c'') = [''a'', ''b'', ''c'']"
    by (simp add: split_origin_def py_strip_def py_strip_chars_def py_whitespace_def)
  have none: "split_origin VNone = []"
    by (simp add: split_origin_def)
  have "\<exists>p \<in> set ?rs. \<not> startswith (fst p) ''md_'' \<and>
          split_origin (rec_get (snd p) ''colrev_origin'') \<noteq> []"
    by (simp add: rec_get_def parts)
  with origin_stats_values [of ?rs]
  have "compute_origin_stats ?rs =
        (Some (origin_entries ''colrev_origin'' ''md_'' ?rs),
         Some (max 0 (origin_entries ''colrev_origin'' ''md_'' ?rs
                      - int (length (kept_records ''md_'' ?rs)))))"
    by blast
  then show ?thesis
    by (simp add: origin_entries_def kept_records_def origin_parts_def rec_get_def parts none)
qed

text \<open>
  The claim as stated fails: the first record of this collection has the origin value
  \<open>a;b\<close>, the only kept record has no origin parts, so the claim gives the totals 0 and
  0, and the result is \<open>(None, None)\<close>.
\<close>

theorem origin_stats_values_counterexample:
  "compute_origin_stats
     [(''md_m'', [''colrev_origin'' \<mapsto> VStr ''a;b'']), (''r1'', Map.empty)] = (None, None)
   \<and> py_truthy (rec_get [''colrev_origin'' \<mapsto> VStr ''a;b''] ''colrev_origin'')
   \<and> origin_entries ''colrev_origin'' ''md_''
        [(''md_m'', [''colrev_origin'' \<mapsto> VStr ''a;b'']), (''r1'', Map.empty)] = 0
   \<and> kept_records ''md_''
        [(''md_m'', [''colrev_origin'' \<mapsto> VStr ''a;b'']), (''r1'', Map.empty)]
       = [(''r1'', Map.empty)]"
  by (simp add: compute_origin_stats_def compute_origin_stats_with_def rec_get_def
      split_origin_def origin_entries_def kept_records_def origin_parts_def)

section \<open>The screening criteria\<close>

lemma parse_part_entry:
  "parse_part part result =
     (case entry_of part of None \<Rightarrow> result | Some (k, f) \<Rightarrow> AList.update k f result)"
  by (simp add: parse_part_def entry_of_def set_flag_def flag_entry_def Let_def)

lemma map_of_fold_parse_part:
  "map_of (fold parse_part parts result)
   = map_of (rev (List.map_filter entry_of parts) @ result)"
proof (induction parts arbitrary: result)
  case Nil
  then show ?case by simp
next
  case (Cons part parts)
  have step: "map_of (fold parse_part (part # parts) result)
              = map_of (rev (List.map_filter entry_of parts) @ parse_part part result)"
    by (simp add: Cons.IH)
  show ?case
  proof (cases "entry_of part")
    case None
    then have "parse_part part result = result"
      by (simp add: parse_part_entry)
    with step None show ?thesis by simp
  next
    case (Some kf)
    obtain k f where kf: "kf = (k, f)" by (cases kf)
    with Some have "parse_part part result = AList.update k f result"
      by (simp add: parse_part_entry)
    with step have "map_of (fold parse_part (part # parts) result)
          = map_of (rev (List.map_filter entry_of parts) @ AList.update k f result)"
      by simp
    also have "\<dots> = map_of (rev (List.map_filter entry_of parts) @ (k, f) # result)"
      by (simp add: map_add_def update_conv' fun_eq_iff split: option.splits)
    finally show ?thesis
      by (simp add: Some kf)
  qed
qed

lemma snd_set_update: "snd ` set (AList.update k v al) \<subseteq> insert v (snd ` set al)"
  by (induction al) auto

lemma flags_parse_part:
  "snd ` set result \<subseteq> {0, 1} \<Longrightarrow> snd ` set (parse_part part result) \<subseteq> {0, 1}"
proof (cases "entry_of part")
  case None
  assume "snd ` set result \<subseteq> {0, 1}"
  with None show ?thesis by (simp add: parse_part_entry)
next
  case (Some kf)
  assume r: "snd ` set result \<subseteq> {0, 1}"
  obtain k f where kf: "kf = (k, f)" by (cases kf)
  from Some kf have "f = 0 \<or> f = 1"
    by (auto simp: entry_of_def flag_entry_def split: if_splits)
  with r snd_set_update [of k f result] have "snd ` set (AList.update k f result) \<subseteq> {0, 1}"
    by blast
  with Some kf show ?thesis
    by (simp add: parse_part_entry)
qed

lemma flags_fold_parse_part:
  "snd ` set result \<subseteq> {0, 1} \<Longrightarrow> snd ` set (fold parse_part parts result) \<subseteq> {0, 1}"
proof (induction parts arbitrary: result)
  case Nil
  then show ?case by simp
next
  case (Cons part parts)
  from Cons.IH [OF flags_parse_part [OF Cons.prems]] show ?case by simp
qed

lemma ex_parse: "parse_screening_criteria (VStr ''{non-empirical=in;bias=out}'')
   = [(''non-empirical'', 0), (''bias'', 1)]"
  by (simp add: parse_screening_criteria_def criteria_parts_def py_strip_def py_strip_chars_def
      py_whitespace_def py_replace_def parse_part_def set_flag_def split_first_def py_lower_def
      lower_char_def out_vals_def in_vals_def)

text \<open>
  Claim C8, as the code has it. \<open>parse_screening_criteria\<close> returns the empty mapping for
  an empty or missing field. Otherwise the field is trimmed, the braces at its two ends
  are removed, and it is cut at every \<open>;\<close> and \<open>,\<close>; the mapping holds, for every part
  that is a \<open>key=value\<close> or \<open>key:value\<close> entry whose value, trimmed and lower-cased, is in
  the out-vocabulary, the flag 1, and for one whose value is in the in-vocabulary the flag
  0, the last such entry of a key winning, and nothing for any other part. No quote or
  brace is removed from a value. \<open>{non-empirical=in;bias=out}\<close> gives
  \<open>non-empirical\<close> 0 and \<open>bias\<close> 1.
\<close>

theorem parse_screening_criteria_entries:
  "(\<not> py_truthy v \<longrightarrow> parse_screening_criteria v = [])
   \<and> (py_truthy v \<longrightarrow>
        map_of (parse_screening_criteria v)
        = map_of (rev (List.map_filter entry_of (criteria_parts v))))
   \<and> snd ` set (parse_screening_criteria v) \<subseteq> {0, 1}
   \<and> parse_screening_criteria (VStr ''{non-empirical=in;bias=out}'')
       = [(''non-empirical'', 0), (''bias'', 1)]"
  using map_of_fold_parse_part [of "criteria_parts v" "[]"]
    flags_fold_parse_part [of "[]" "criteria_parts v"] ex_parse
  by (simp add: parse_screening_criteria_def)

text \<open>
  The claim as stated fails: the value \<open>{out}\<close> of \<open>a\<close> is in the out-vocabulary once
  its braces are stripped, and the mapping has no entry for \<open>a\<close>.
\<close>

theorem parse_screening_criteria_counterexample:
  "parse_screening_criteria (VStr ''a={out};b=in'') = [(''b'', 0)]
   \<and> py_strip_chars ''{}'' ''{out}'' \<in> set out_vals"
  by (simp add: parse_screening_criteria_def criteria_parts_def py_strip_def py_strip_chars_def
      py_whitespace_def py_replace_def parse_part_def set_flag_def split_first_def py_lower_def
      lower_char_def out_vals_def in_vals_def)

theorem parse_screening_criteria_entries_witness:
  "map_of (parse_screening_criteria (VStr ''a : OUT, b=In, c=maybe, a=yes'')) ''a'' = Some 0
   \<and> map_of (parse_screening_criteria (VStr ''a : OUT, b=In, c=maybe, a=yes'')) ''b'' = Some 0
   \<and> map_of (parse_screening_criteria (VStr ''a : OUT, b=In, c=maybe, a=yes'')) ''c'' = None"
proof -
  have "py_truthy (VStr ''a : OUT, b=In, c=maybe, a=yes'')" by simp
  with parse_screening_criteria_entries [of "VStr ''a : OUT, b=In, c=maybe, a=yes''"]
  have "map_of (parse_screening_criteria (VStr ''a : OUT, b=In, c=maybe, a=yes''))
        = map_of (rev (List.map_filter entry_of
            (criteria_parts (VStr ''a : OUT, b=In, c=maybe, a=yes''))))"
    by blast
  then show ?thesis
    by (simp add: criteria_parts_def py_strip_def py_strip_chars_def
      py_whitespace_def py_replace_def entry_of_def flag_entry_def split_first_def py_lower_def
      lower_char_def out_vals_def in_vals_def)
qed

section \<open>The reason normalizer\<close>

lemmas int_eval_defs =
  int_of_str_def py_strip_def py_strip_chars_def py_whitespace_def int_whitespace_def
  unsigned_value_def digit_val_def count_digits_def max_str_digits_def


lemma py_sum_value:
  "list_all is_int vs \<Longrightarrow> py_sum vs acc = Inr (acc + sum_list (map count_value vs))"
proof (induction vs arbitrary: acc)
  case Nil
  then show ?case by simp
next
  case (Cons v vs)
  then show ?case by (cases v) simp_all
qed

lemma py_sum_raises:
  "\<not> list_all is_int vs \<Longrightarrow> py_sum vs acc = Inl TypeError"
proof (induction vs arbitrary: acc)
  case Nil
  then show ?case by simp
next
  case (Cons v vs)
  then show ?case by (cases v) simp_all
qed

lemma py_sum_returns: "(\<exists>n. py_sum vs acc = Inr n) \<longleftrightarrow> list_all is_int vs"
proof (cases "list_all is_int vs")
  case True
  with py_sum_value [OF True, of acc] show ?thesis by simp
next
  case False
  with py_sum_raises [OF False, of acc] show ?thesis by simp
qed











text \<open>
  The two whitespace sets differ: \<open>_to_int\<close> reads the string of 0x1C, 1, 2 as 12, the
  bare \<open>int\<close> raises on it. A count that is an integer-like string is accepted, and a
  breakdown is not looked at when the total is given.
\<close>

lemma normalize_reasons_examples:
  "to_int (RStr [CHR 0x1C, CHR ''1'', CHR ''2'']) = Some 12"
  "py_int (RStr [CHR 0x1C, CHR ''1'', CHR ''2'']) = Inl ValueError"
  "normalize_reasons (RMap [(''a'', RStr ''3'')])
   = Inr \<lparr> total = Some 3, by_reason = Some [(''a'', RInt 3)] \<rparr>"
  "normalize_reasons (RMap [(''total'', RInt 5), (''by_reason'', RMap [(''a'', RStr ''x'')])])
   = Inr \<lparr> total = Some 5, by_reason = Some [(''a'', RStr ''x'')] \<rparr>"
  "normalize_reasons (RMap [(''total'', RStr ''n/a''), (''by_reason'', RMap [(''a'', RInt 2)])])
   = Inr \<lparr> total = Some 2, by_reason = Some [(''a'', RInt 2)] \<rparr>"
  by (simp_all add: int_eval_defs py_bind_def map_get_def)




section \<open>The reason tally\<close>

lemma sum_update_add:
  "sum_list (map snd (AList.update k (dict_get fr k 0 + v) fr))
   = sum_list (map snd fr) + (v :: int)"
  by (induction fr) (auto simp: dict_get_def)

lemma sum_add_reason: "sum_list (map snd (add_reason k v fr)) = sum_list (map snd fr) + v"
  by (simp add: add_reason_def sum_update_add)

lemma sum_add_all:
  "sum_list (map snd (add_all kvs fr)) = sum_list (map snd fr) + sum_list (map snd kvs)"
proof (induction kvs arbitrary: fr)
  case Nil
  then show ?case by simp
next
  case (Cons kv kvs)
  obtain k v where kv: "kv = (k, v)" by (cases kv)
  show ?case by (simp add: kv Cons.IH sum_add_reason)
qed

lemma sum_reasons_of:
  "sum_list (map snd (reasons_of ''exclusion_reason'' ''screening_criteria'' rec))
   = (if bucket_of rec = ''fulltext_excluded'' then reason_weight rec else 0)"
  by (simp add: reasons_of_def reason_weight_def)

lemma sum_all_reasons:
  "sum_list (map snd (all_reasons ''exclusion_reason'' ''screening_criteria'' records))
   = excluded_weights records"
  by (induction records) (simp_all add: all_reasons_def excluded_weights_def sum_reasons_of)

lemma sum_reason_tally: "sum_list (map snd (reason_tally records)) = excluded_weights records"
  by (simp add: reason_tally_def sum_add_all sum_all_reasons)

lemma weights_le:
  "(\<forall>p \<in> set records. bucket_of (snd p) = ''fulltext_excluded'' \<longrightarrow> reason_weight (snd p) \<le> 1)
   \<Longrightarrow> excluded_weights records \<le> bucket_count ''fulltext_excluded'' records"
  by (induction records) (auto simp: excluded_weights_def bucket_count_def)

lemma weights_eq:
  "(\<forall>p \<in> set records. bucket_of (snd p) = ''fulltext_excluded'' \<longrightarrow> reason_weight (snd p) = 1)
   \<Longrightarrow> excluded_weights records = bucket_count ''fulltext_excluded'' records"
  by (induction records) (auto simp: excluded_weights_def bucket_count_def)

text \<open>
  Claim C4, as the code has it. At the end of the loop of \<open>records_to_status\<close> the sum of
  the counts of the reason tally is the sum, over the records of the bucket
  \<open>fulltext_excluded\<close>, of what each adds: the number of its criteria parsed as out when
  parsing yields any entry, otherwise 1 for a non-empty fallback reason and 0 for none.
  So the sum is at most the counter of the bucket when no such record adds more than 1,
  and equal to it when every such record adds exactly 1.
\<close>

theorem reason_tally_total:
  "\<exists>bk fr. status_loop ''exclusion_reason'' ''screening_criteria'' records (initial_buckets, [])
             = Inr (bk, fr)
     \<and> py_getitem bk ''fulltext_excluded'' = Inr (bucket_count ''fulltext_excluded'' records)
     \<and> sum_list (map snd fr) = excluded_weights records
     \<and> ((\<forall>p \<in> set records. bucket_of (snd p) = ''fulltext_excluded'' \<longrightarrow>
             reason_weight (snd p) \<le> 1)
          \<longrightarrow> sum_list (map snd fr) \<le> bucket_count ''fulltext_excluded'' records)
     \<and> ((\<forall>p \<in> set records. bucket_of (snd p) = ''fulltext_excluded'' \<longrightarrow>
             reason_weight (snd p) = 1)
          \<longrightarrow> sum_list (map snd fr) = bucket_count ''fulltext_excluded'' records)"
proof -
  from status_loop_initial [of "''exclusion_reason''" "''screening_criteria''" records]
  obtain bk where
    loop: "status_loop ''exclusion_reason'' ''screening_criteria'' records (initial_buckets, [])
           = Inr (bk, reason_tally records)"
    and get: "\<forall>b \<in> set bucket_tags. py_getitem bk b = Inr (bucket_count b records)"
    unfolding reason_tally_def by blast
  from get have "py_getitem bk ''fulltext_excluded''
                 = Inr (bucket_count ''fulltext_excluded'' records)"
    by (simp add: bucket_tags_def)
  with loop weights_le [of records] weights_eq [of records] show ?thesis
    by (simp add: sum_reason_tally)
qed


lemmas eval_defs =
  status_bucket_def py_lower_def lower_char_def any_in_def
  PDF_NOT_RETRIEVED_STATUSES_def PDF_RETRIEVED_STATUSES_def
  py_strip_def py_strip_chars_def py_whitespace_def get_status_def rec_get_def
  rec_get_default_def parse_screening_criteria_def criteria_parts_def py_replace_def
  parse_part_def set_flag_def split_first_def out_vals_def in_vals_def

text \<open>
  The claim as stated fails. One excluded record with two criteria parsed as out gives a
  tally with the sum 2 and a counter of 1; one excluded record whose only criterion is
  parsed as in gives a tally with the sum 0 and a counter of 1.
\<close>

theorem reason_tally_total_counterexample:
  "status_loop ''exclusion_reason'' ''screening_criteria''
     [(''r1'', [''colrev_status'' \<mapsto> VStr ''rev_excluded'',
                ''screening_criteria'' \<mapsto> VStr ''a=out;b=out''])]
     (initial_buckets, [])
   = Inr ([(''screened'', 0), (''prescreen_excluded'', 0), (''fulltext_excluded'', 1),
           (''pdf_not_retrieved'', 0), (''pdf_retrieved'', 0), (''included'', 0),
           (''duplicate'', 0), (''other'', 0)],
          [(''a'', 1), (''b'', 1)])
   \<and> status_loop ''exclusion_reason'' ''screening_criteria''
     [(''r1'', [''colrev_status'' \<mapsto> VStr ''rev_excluded'',
                ''screening_criteria'' \<mapsto> VStr ''a=in''])]
     (initial_buckets, [])
   = Inr ([(''screened'', 0), (''prescreen_excluded'', 0), (''fulltext_excluded'', 1),
           (''pdf_not_retrieved'', 0), (''pdf_retrieved'', 0), (''included'', 0),
           (''duplicate'', 0), (''other'', 0)],
          [(''a'', 0)])"
  by (simp add: eval_defs initial_buckets_def py_bind_def py_getitem_def tally_record_def
      add_reason_def dict_get_def)

theorem reason_tally_total_witness:
  "\<exists>bk fr. status_loop ''exclusion_reason'' ''screening_criteria''
       [(''r1'', [''colrev_status'' \<mapsto> VStr ''rev_excluded'',
                  ''screening_criteria'' \<mapsto> VStr ''a=out;b=in'']),
        (''r2'', [''colrev_status'' \<mapsto> VStr ''rev_excluded'',
                  ''exclusion_reason'' \<mapsto> VStr ''too old'']),
        (''r3'', [''colrev_status'' \<mapsto> VStr ''rev_included''])]
       (initial_buckets, []) = Inr (bk, fr)
     \<and> py_getitem bk ''fulltext_excluded'' = Inr 2
     \<and> sum_list (map snd fr) = 2"
proof -
  let ?r1 = "[''colrev_status'' \<mapsto> VStr ''rev_excluded'',
              ''screening_criteria'' \<mapsto> VStr ''a=out;b=in'']"
  let ?r2 = "[''colrev_status'' \<mapsto> VStr ''rev_excluded'',
              ''exclusion_reason'' \<mapsto> VStr ''too old'']"
  let ?r3 = "[''colrev_status'' \<mapsto> VStr ''rev_included'']"
  let ?rs = "[(''r1'', ?r1), (''r2'', ?r2), (''r3'', ?r3)]"
  have b: "bucket_of ?r1 = ''fulltext_excluded''" "bucket_of ?r2 = ''fulltext_excluded''"
    "bucket_of ?r3 = ''included''"
    by (simp_all add: bucket_of_def eval_defs)
  have w: "reason_weight ?r1 = 1" "reason_weight ?r2 = 1"
    by (simp_all add: reason_weight_def fallback_reason_def eval_defs)
  have n: "bucket_count ''fulltext_excluded'' ?rs = 2"
    by (simp add: b)
  have "\<forall>p \<in> set ?rs. bucket_of (snd p) = ''fulltext_excluded'' \<longrightarrow> reason_weight (snd p) = 1"
    by (simp add: b w)
  with reason_tally_total [of ?rs] n show ?thesis
    by auto
qed

section \<open>The order of the records\<close>

lemma map_of_add_reason:
  "map_of (add_reason k v fr) = (map_of fr)(k \<mapsto> dict_get fr k 0 + v)"
  by (simp add: add_reason_def update_conv')

lemma distinct_add_reason:
  "distinct (map fst fr) \<Longrightarrow> distinct (map fst (add_reason k v fr))"
  by (simp add: add_reason_def distinct_update)

lemma distinct_add_all:
  "distinct (map fst fr) \<Longrightarrow> distinct (map fst (add_all kvs fr))"
proof (induction kvs arbitrary: fr)
  case Nil
  then show ?case by simp
next
  case (Cons kv kvs)
  obtain k v where kv: "kv = (k, v)" by (cases kv)
  from Cons.IH [OF distinct_add_reason [OF Cons.prems, of k v]] show ?case
    by (simp add: kv)
qed

lemma dict_get_add_reason:
  "dict_get (add_reason k v fr) k' 0 = dict_get fr k' 0 + (if k' = k then v else 0)"
  by (simp add: dict_get_def map_of_add_reason)

lemma dict_get_add_all:
  "dict_get (add_all kvs fr) k 0 = dict_get fr k 0 + key_sum k kvs"
proof (induction kvs arbitrary: fr)
  case Nil
  then show ?case by (simp add: key_sum_def)
next
  case (Cons kv kvs)
  obtain k' v where kv: "kv = (k', v)" by (cases kv)
  show ?case
    by (simp add: kv Cons.IH dict_get_add_reason key_sum_def)
qed

lemma keys_add_all:
  "fst ` set (add_all kvs fr) = fst ` set fr \<union> fst ` set kvs"
proof (induction kvs arbitrary: fr)
  case Nil
  then show ?case by simp
next
  case (Cons kv kvs)
  obtain k v where kv: "kv = (k, v)" by (cases kv)
  have "fst ` set (add_reason k v fr) = insert k (fst ` set fr)"
    by (simp add: add_reason_def dom_update)
  then show ?case
    by (auto simp: kv Cons.IH)
qed

lemma map_of_keys_get:
  "map_of d k = (if k \<in> fst ` set d then Some (dict_get d k 0) else None)"
  by (auto simp: dict_get_def map_of_eq_None_iff split: option.splits)

lemma key_sum_mset: "mset kvs = mset kvs' \<Longrightarrow> key_sum k kvs = key_sum k kvs'"
proof -
  assume eq: "mset kvs = mset kvs'"
  have "key_sum k xs = sum_mset (image_mset snd (filter_mset (\<lambda>p. fst p = k) (mset xs)))"
    for xs :: "(string \<times> int) list"
    by (simp add: key_sum_def flip: sum_mset_sum_list)
  with eq show ?thesis by simp
qed

lemma add_all_mset:
  assumes "mset kvs = mset kvs'"
  shows "dict_eq (add_all kvs []) (add_all kvs' [])"
proof -
  from assms have s: "set kvs = set kvs'" by (rule mset_eq_setD)
  have "map_of (add_all kvs []) k = map_of (add_all kvs' []) k" for k
    by (simp add: map_of_keys_get [of "add_all kvs []"] map_of_keys_get [of "add_all kvs' []"]
        keys_add_all dict_get_add_all s key_sum_mset [OF assms])
  then have "map_of (add_all kvs []) = map_of (add_all kvs' [])" by (rule ext)
  moreover have "distinct (map fst (add_all kvs []))" "distinct (map fst (add_all kvs' []))"
    by (simp_all add: distinct_add_all)
  ultimately show ?thesis
    unfolding dict_eq_def by (simp add: map_of_inject_set)
qed

lemma all_reasons_mset:
  "mset records = mset records' \<Longrightarrow>
   mset (all_reasons ek sk records) = mset (all_reasons ek sk records')"
proof -
  assume eq: "mset records = mset records'"
  have "mset (all_reasons ek sk xs)
        = sum_mset (image_mset (\<lambda>p. mset (reasons_of ek sk (snd p))) (mset xs))" for xs
    by (induction xs) (simp_all add: all_reasons_def)
  with eq show ?thesis by simp
qed

lemma reason_tally_mset:
  "mset records = mset records' \<Longrightarrow> dict_eq (reason_tally records) (reason_tally records')"
  unfolding reason_tally_def by (rule add_all_mset) (rule all_reasons_mset)

lemma bucket_count_mset:
  "mset records = mset records' \<Longrightarrow> bucket_count b records = bucket_count b records'"
proof -
  assume eq: "mset records = mset records'"
  have "bucket_count b xs = int (size (filter_mset (\<lambda>p. bucket_of (snd p) = b) (mset xs)))"
    for xs
    by (simp add: bucket_count_def flip: mset_filter)
  with eq show ?thesis by simp
qed

lemma kept_records_mset:
  "mset records = mset records' \<Longrightarrow> mset (kept_records px records) = mset (kept_records px records')"
  by (simp add: kept_records_def)

lemma origin_stats_mset:
  assumes "mset records = mset records'"
  shows "compute_origin_stats records = compute_origin_stats records'"
proof -
  let ?k = "kept_records ''md_'' records" and ?k' = "kept_records ''md_'' records'"
  from assms have k: "mset ?k = mset ?k'" by (rule kept_records_mset)
  then have len: "length ?k = length ?k'" by (rule mset_eq_length)
  from k have "set ?k = set ?k'" by (rule mset_eq_setD)
  then have tr: "origin_tracked ''colrev_origin'' ''md_'' records
                 = origin_tracked ''colrev_origin'' ''md_'' records'"
    by (simp add: origin_tracked_def list_ex_iff)
  have "origin_entries ''colrev_origin'' ''md_'' xs
        = sum_mset (image_mset (\<lambda>p. int (length (origin_parts ''colrev_origin'' (snd p))))
            (mset (kept_records ''md_'' xs)))" for xs
    by (simp add: origin_entries_def flip: sum_mset_sum_list)
  with k have "origin_entries ''colrev_origin'' ''md_'' records
               = origin_entries ''colrev_origin'' ''md_'' records'"
    by simp
  with tr len show ?thesis
    by (simp add: compute_origin_stats_closed)
qed

lemma dict_eq_Nil: "dict_eq d e \<Longrightarrow> (d = []) = (e = [])"
  by (auto simp: dict_eq_def)

text \<open>
  Claim C9. For every record collection and every permutation of its entries,
  \<open>records_to_status\<close> returns on both, and the two statuses are equal as Python compares
  them: every counter and both origin statistics are the same, and the two reason tallies
  hold the same items. (The order in which the tally lists its reasons follows the order
  of the records, as the second theorem shows; \<open>==\<close> on dicts does not look at it.)
\<close>

theorem records_to_status_order:
  assumes "mset records' = mset records"
  shows "\<exists>st st'. records_to_status records = Inr st \<and> records_to_status records' = Inr st'
           \<and> PrismaStatus_eq st st'"
proof -
  from assms have eq: "mset records = mset records'" by simp
  from reason_tally_mset [OF eq] dict_eq_Nil [OF reason_tally_mset [OF eq]]
  show ?thesis
    by (simp add: records_to_status_closed PrismaStatus_eq_def screened_sum_def
        bucket_count_mset [OF eq] origin_stats_mset [OF eq])
qed


theorem records_to_status_order_witness:
  "\<exists>st st'.
     records_to_status
       [(''r1'', [''colrev_status'' \<mapsto> VStr ''rev_excluded'', ''exclusion_reason'' \<mapsto> VStr ''x'']),
        (''r2'', [''colrev_status'' \<mapsto> VStr ''rev_excluded'', ''exclusion_reason'' \<mapsto> VStr ''y''])]
       = Inr st
     \<and> records_to_status
       [(''r2'', [''colrev_status'' \<mapsto> VStr ''rev_excluded'', ''exclusion_reason'' \<mapsto> VStr ''y'']),
        (''r1'', [''colrev_status'' \<mapsto> VStr ''rev_excluded'', ''exclusion_reason'' \<mapsto> VStr ''x''])]
       = Inr st'
     \<and> PrismaStatus_eq st st'
     \<and> reports_excluded st = Some [(''x'', 1), (''y'', 1)]
     \<and> reports_excluded st' = Some [(''y'', 1), (''x'', 1)]"
proof -
  let ?r1 = "[''colrev_status'' \<mapsto> VStr ''rev_excluded'', ''exclusion_reason'' \<mapsto> VStr ''x'']"
  let ?r2 = "[''colrev_status'' \<mapsto> VStr ''rev_excluded'', ''exclusion_reason'' \<mapsto> VStr ''y'']"
  let ?a = "[(''r1'', ?r1), (''r2'', ?r2)]" and ?b = "[(''r2'', ?r2), (''r1'', ?r1)]"
  have rs: "reasons_of ''exclusion_reason'' ''screening_criteria'' ?r1 = [(''x'', 1)]"
    "reasons_of ''exclusion_reason'' ''screening_criteria'' ?r2 = [(''y'', 1)]"
    by (simp_all add: reasons_of_def bucket_of_def fallback_reason_def eval_defs)
  have t: "reason_tally ?a = [(''x'', 1), (''y'', 1)]" "reason_tally ?b = [(''y'', 1), (''x'', 1)]"
    by (simp_all add: reason_tally_def all_reasons_def rs add_reason_def dict_get_def)
  have "mset ?b = mset ?a" by simp
  from records_to_status_order [OF this] obtain st st' where
    "records_to_status ?a = Inr st" "records_to_status ?b = Inr st'" "PrismaStatus_eq st st'"
    by blast
  moreover from this have "reports_excluded st = Some [(''x'', 1), (''y'', 1)]"
    "reports_excluded st' = Some [(''y'', 1), (''x'', 1)]"
    by (auto simp: records_to_status_closed t)
  ultimately show ?thesis by blast
qed

section \<open>The main mapping of the combined module\<close>

lemma status_bucket_mono_tag: "status_bucket_mono s \<in> set bucket_tags_mono"
  by (simp add: status_bucket_mono_def bucket_tags_mono_def Let_def)

lemma bucket_count_mono_Nil [simp]: "bucket_count_mono b [] = 0"
  by (simp add: bucket_count_mono_def)

lemma bucket_count_mono_Cons [simp]:
  "bucket_count_mono b ((rid, rec) # rest)
   = (if status_bucket_mono (get_status rec) = b then 1 else 0) + bucket_count_mono b rest"
  by (simp add: bucket_count_mono_def)

lemma status_loop_mono_result:
  "set bucket_tags_mono \<subseteq> fst ` set bk \<Longrightarrow>
   \<exists>bk' c' s'. status_loop_mono ek sk records (bk, c, s) = Inr (bk', c', s')
     \<and> fst ` set bk' = fst ` set bk
     \<and> (\<forall>b. dict_get bk' b 0 = dict_get bk b 0 + bucket_count_mono b records)"
proof (induction records arbitrary: bk c s)
  case Nil
  then show ?case by simp
next
  case (Cons p rest)
  obtain rid rec where p: "p = (rid, rec)" by (cases p)
  let ?b = "status_bucket_mono (get_status rec)"
  have key: "?b \<in> fst ` set bk"
    using Cons.prems status_bucket_mono_tag [of "get_status rec"] by auto
  let ?bk = "AList.update ?b (dict_get bk ?b 0 + 1) bk"
  have keys: "fst ` set ?bk = fst ` set bk"
    using key by (rule keys_update)
  with Cons.prems have sub: "set bucket_tags_mono \<subseteq> fst ` set ?bk" by simp
  have "\<exists>c1 s1. status_loop_mono ek sk (p # rest) (bk, c, s)
                 = status_loop_mono ek sk rest (?bk, c1, s1)"
    using py_getitem_key [OF key, of 0]
    by (simp add: p py_bind_def Let_def) blast
  then obtain c1 s1 where step:
    "status_loop_mono ek sk (p # rest) (bk, c, s) = status_loop_mono ek sk rest (?bk, c1, s1)"
    by blast
  from Cons.IH [OF sub, of c1 s1] obtain bk' c' s' where
    loop: "status_loop_mono ek sk rest (?bk, c1, s1) = Inr (bk', c', s')"
    and dom: "fst ` set bk' = fst ` set ?bk"
    and cnt: "\<forall>b. dict_get bk' b 0 = dict_get ?bk b 0 + bucket_count_mono b rest"
    by blast
  have "\<forall>b. dict_get bk' b 0 = dict_get bk b 0 + bucket_count_mono b (p # rest)"
    using cnt by (simp add: p dict_get_update)
  with step loop dom keys show ?case by simp
qed

text \<open>
  \<open>records_to_status\<close> of the combined module returns for every collection, with
  \<open>included\<close> and \<open>new_reports\<close> both the counter of the bucket \<open>included\<close>.
\<close>

lemma records_to_status_mono_included:
  "\<exists>st. records_to_status_mono records = Inr st
     \<and> new_reports st = included st
     \<and> included st = Some (bucket_count_mono ''included'' records)"
proof -
  have tags: "set bucket_tags_mono \<subseteq> fst ` set initial_buckets_mono"
    by (simp add: bucket_tags_mono_def initial_buckets_mono_def)
  from status_loop_mono_result [OF tags, of "''exclusion_reason''" "''screening_criteria''"
      records "[]" "[]"]
  obtain bk c s where
    loop: "status_loop_mono ''exclusion_reason'' ''screening_criteria'' records
             (initial_buckets_mono, [], []) = Inr (bk, c, s)"
    and keys: "fst ` set bk = fst ` set initial_buckets_mono"
    and cnt: "\<forall>b. dict_get bk b 0 = dict_get initial_buckets_mono b 0
                     + bucket_count_mono b records"
    by blast
  have get: "py_getitem bk b = Inr (bucket_count_mono b records)"
    if "b \<in> set bucket_tags_mono" for b
  proof -
    from that tags keys have "b \<in> fst ` set bk" by blast
    from py_getitem_key [OF this, of 0] cnt show ?thesis
      by (simp add: dict_get_def initial_buckets_mono_def)
  qed
  have g: "py_getitem bk ''screened'' = Inr (bucket_count_mono ''screened'' records)"
    "py_getitem bk ''excluded'' = Inr (bucket_count_mono ''excluded'' records)"
    "py_getitem bk ''fulltext'' = Inr (bucket_count_mono ''fulltext'' records)"
    "py_getitem bk ''included'' = Inr (bucket_count_mono ''included'' records)"
    "py_getitem bk ''identified'' = Inr (bucket_count_mono ''identified'' records)"
    "py_getitem bk ''other'' = Inr (bucket_count_mono ''other'' records)"
    "py_getitem bk ''duplicate'' = Inr (bucket_count_mono ''duplicate'' records)"
    by (rule get, simp add: bucket_tags_mono_def)+
  show ?thesis
    by (simp add: records_to_status_mono_def loop py_bind_def summarise_mono_def g Let_def
        split: prod.splits option.splits)
qed

text \<open>
  Claim C10. For every record collection the status that \<open>records_to_status\<close> returns has
  \<open>new_reports\<close> equal to \<open>included\<close>: both are the count of the bucket \<open>included\<close>. This
  holds for the function of the loader and for the one of the combined module.
\<close>

theorem new_reports_is_included:
  "(\<exists>st. records_to_status records = Inr st
      \<and> new_reports st = included st
      \<and> included st = Some (bucket_count ''included'' records))
   \<and> (\<exists>st. records_to_status_mono records = Inr st
      \<and> new_reports st = included st
      \<and> included st = Some (bucket_count_mono ''included'' records))"
  using records_to_status_mono_included [of records]
  by (simp add: records_to_status_closed)

end
